theory Spec2Isabelle
  imports Main "HOL-Library.Sublist"
begin

section \<open>Go strings and the standard-library functions the drivers call\<close>

text \<open>
  A Go string is a sequence of bytes, here a \<open>string\<close> (a list of 8-bit characters).
  A non-nil Go \<open>error\<close> is represented by its message; \<open>None\<close> is \<open>nil\<close>.
\<close>

type_synonym error = string

fun HasPrefix :: "string \<Rightarrow> string \<Rightarrow> bool" where
  "HasPrefix s [] = True"
| "HasPrefix [] (p # ps) = False"
| "HasPrefix (c # cs) (p # ps) = (c = p \<and> HasPrefix cs ps)"

text \<open>\<open>strings.Contains(s, substr)\<close>.\<close>

fun Contains :: "string \<Rightarrow> string \<Rightarrow> bool" where
  "Contains [] substr = (substr = [])"
| "Contains (c # cs) substr = (HasPrefix (c # cs) substr \<or> Contains cs substr)"

text \<open>
  \<open>strings.Split(s, sep)\<close> for a separator of one byte (both call sites pass one:
  \<open>":"\<close> and \<open>"\n"\<close>). The result always has at least one element.
\<close>

fun Split :: "string \<Rightarrow> char \<Rightarrow> string list" where
  "Split [] sep = [[]]"
| "Split (c # cs) sep =
     (if c = sep then [] # Split cs sep
      else (case Split cs sep of [] \<Rightarrow> [[c]] | p # ps \<Rightarrow> (c # p) # ps))"

text \<open>\<open>strings.Join(elems, sep)\<close>.\<close>

fun Join :: "string list \<Rightarrow> string \<Rightarrow> string" where
  "Join [] sep = []"
| "Join [e] sep = e"
| "Join (e # f # es) sep = e @ sep @ Join (f # es) sep"

text \<open>
  \<open>strings.TrimSpace\<close> removes leading, then trailing, white space as \<open>unicode.IsSpace\<close>
  defines it. On a byte string these are the UTF-8 encodings below: the six ASCII
  characters, U+0085, U+00A0, U+1680, U+2000 to U+200A, U+2028, U+2029, U+202F, U+205F
  and U+3000.
\<close>

definition whitespace :: "string list" where
  "whitespace =
     [[CHR 0x09], [CHR 0x0A], [CHR 0x0B], [CHR 0x0C], [CHR 0x0D], [CHR 0x20],
      [CHR 0xC2, CHR 0x85], [CHR 0xC2, CHR 0xA0], [CHR 0xE1, CHR 0x9A, CHR 0x80],
      [CHR 0xE2, CHR 0x80, CHR 0x80], [CHR 0xE2, CHR 0x80, CHR 0x81],
      [CHR 0xE2, CHR 0x80, CHR 0x82], [CHR 0xE2, CHR 0x80, CHR 0x83],
      [CHR 0xE2, CHR 0x80, CHR 0x84], [CHR 0xE2, CHR 0x80, CHR 0x85],
      [CHR 0xE2, CHR 0x80, CHR 0x86], [CHR 0xE2, CHR 0x80, CHR 0x87],
      [CHR 0xE2, CHR 0x80, CHR 0x88], [CHR 0xE2, CHR 0x80, CHR 0x89],
      [CHR 0xE2, CHR 0x80, CHR 0x8A], [CHR 0xE2, CHR 0x80, CHR 0xA8],
      [CHR 0xE2, CHR 0x80, CHR 0xA9], [CHR 0xE2, CHR 0x80, CHR 0xAF],
      [CHR 0xE2, CHR 0x81, CHR 0x9F], [CHR 0xE3, CHR 0x80, CHR 0x80]]"

text \<open>The width in bytes of the white-space rune at the head (the end) of \<open>s\<close>, 0 if none.\<close>

definition space_width :: "string \<Rightarrow> nat" where
  "space_width s = (case find (HasPrefix s) whitespace of None \<Rightarrow> 0 | Some p \<Rightarrow> length p)"

definition space_width_last :: "string \<Rightarrow> nat" where
  "space_width_last s =
     (case find (\<lambda>p. HasPrefix (rev s) (rev p)) whitespace of None \<Rightarrow> 0 | Some p \<Rightarrow> length p)"

function TrimLeft :: "string \<Rightarrow> string" where
  "TrimLeft s = (if space_width s = 0 then s else TrimLeft (drop (space_width s) s))"
  by pat_completeness auto
termination
proof (relation "measure length")
  show "wf (measure length)" by simp
next
  fix s :: string
  assume w: "space_width s \<noteq> 0"
  have "space_width [] = 0" by (simp add: space_width_def whitespace_def)
  with w have "s \<noteq> []" by auto
  with w show "(drop (space_width s) s, s) \<in> measure length" by simp
qed

function TrimRight :: "string \<Rightarrow> string" where
  "TrimRight s =
     (if space_width_last s = 0 then s else TrimRight (take (length s - space_width_last s) s))"
  by pat_completeness auto
termination
proof (relation "measure length")
  show "wf (measure length)" by simp
next
  fix s :: string
  assume w: "space_width_last s \<noteq> 0"
  have "space_width_last [] = 0" by (simp add: space_width_last_def whitespace_def)
  with w have "s \<noteq> []" by auto
  with w show "(take (length s - space_width_last s) s, s) \<in> measure length" by simp
qed

declare TrimLeft.simps [simp del] TrimRight.simps [simp del]

definition TrimSpace :: "string \<Rightarrow> string" where
  "TrimSpace s = TrimRight (TrimLeft s)"

text \<open>
  \<open>bufio.Scanner\<close> with its default split function \<open>ScanLines\<close>: the tokens are the
  lines of the input without their end-of-line marker (a newline, with one carriage
  return before it dropped); a last line without a newline is a token unless it is
  empty. The scanner's buffer holds at most \<open>MaxScanTokenSize\<close> bytes, so \<open>Scan\<close>
  returns false at the first line that does not fit, and the loops of
  \<open>parseDaemonInfo\<close>, which never look at \<open>Err()\<close>, stop there.
\<close>

definition MaxScanTokenSize :: nat where
  "MaxScanTokenSize = 65536"

definition dropCR :: "string \<Rightarrow> string" where
  "dropCR l = (if l \<noteq> [] \<and> last l = CHR 0x0D then butlast l else l)"

definition scan_lines :: "string \<Rightarrow> string list" where
  "scan_lines s =
     (let ps = Split s (CHR 0x0A);
          ls = (if last ps = [] then butlast ps else ps)
      in map dropCR (takeWhile (\<lambda>l. length l < MaxScanTokenSize) ls))"

text \<open>A run of a scanner loop whose body may panic (\<open>None\<close>).\<close>

fun scan_loop :: "(string \<Rightarrow> 's \<Rightarrow> 's option) \<Rightarrow> string list \<Rightarrow> 's \<Rightarrow> 's option" where
  "scan_loop body [] v = Some v"
| "scan_loop body (l # ls) v =
     (case body l v of None \<Rightarrow> None | Some v' \<Rightarrow> scan_loop body ls v')"

text \<open>\<open>%v\<close> of a Go integer: its decimal digits, with a minus sign when negative.\<close>

fun decimal :: "nat \<Rightarrow> string" where
  "decimal n = (if n < 10 then [''0123456789'' ! n]
                else decimal (n div 10) @ [''0123456789'' ! (n mod 10)])"

declare decimal.simps [simp del]

definition format_int :: "int \<Rightarrow> string" where
  "format_int i = (if i < 0 then ''-'' @ decimal (nat (- i)) else decimal (nat i))"

section \<open>The engine outside the program\<close>

text \<open>
  The drivers reach the container engine through the process utilities
  (\<open>utils.ResolveBinary\<close>, \<open>utils.ExecCmd\<close>, \<open>utils.ExecShellCmd\<close>, \<open>utils.ExecTimedCmd\<close>)
  and \<open>exec.Command(...).CombinedOutput()\<close>. None of them is part of the drivers: an
  engine is a parameter, a function from a call and the state of the outside world to a
  reply and the next state. A reply carries the captured output (for \<open>ResolveBinary\<close>
  the resolved path), the elapsed milliseconds (used by \<open>ExecTimedCmd\<close> only) and the
  error.
\<close>

datatype call =
    ResolveBinary string
  | ExecCmd string string
  | ExecShellCmd string
  | ExecTimedCmd string string
  | CombinedOutput string "string list"

record reply =
  out :: string
  elapsed :: int
  failure :: "error option"

type_synonym 'w engine = "call \<Rightarrow> 'w \<Rightarrow> reply \<times> 'w"

datatype level = InfoLevel | WarnLevel

text \<open>
  What a driver operation can change outside the driver object: the outside world, the
  history of the calls made to the engine with their replies, and the log.
\<close>

record 'w sys =
  world :: 'w
  issued :: "(call \<times> reply) list"
  logged :: "(level \<times> string) list"

definition invoke :: "'w engine \<Rightarrow> call \<Rightarrow> 'w sys \<Rightarrow> reply \<times> 'w sys" where
  "invoke eng c s =
     (let (r, w) = eng c (world s)
      in (r, s\<lparr>world := w, issued := issued s @ [(c, r)]\<rparr>))"

definition log_Info :: "string \<Rightarrow> 'w sys \<Rightarrow> 'w sys" where
  "log_Info msg s = s\<lparr>logged := logged s @ [(InfoLevel, msg)]\<rparr>"

definition log_Warn :: "string \<Rightarrow> 'w sys \<Rightarrow> 'w sys" where
  "log_Warn msg s = s\<lparr>logged := logged s @ [(WarnLevel, msg)]\<rparr>"

text \<open>A Go function either returns or panics.\<close>

datatype 'a outcome = Panic | Return 'a

section \<open>Container handles\<close>

text \<open>
  The two implementations of the \<open>Container\<close> interface. \<open>gardenContainer\<close> has two
  fields and declares no \<open>Command\<close> method.
\<close>

datatype Container =
    DockerContainer (name: string) (imageName: string) (cmdOverride: string)
      (detached: bool) (trace: bool)
  | gardenContainer (name: string) (detached: bool)

definition newDockerContainer :: "string \<Rightarrow> string \<Rightarrow> string \<Rightarrow> bool \<Rightarrow> bool \<Rightarrow> Container" where
  "newDockerContainer nm img cmd det trc = DockerContainer nm img cmd det trc"

fun Name :: "Container \<Rightarrow> string" where
  "Name (DockerContainer n i c d t) = n"
| "Name (gardenContainer n d) = n"

fun Detached :: "Container \<Rightarrow> bool" where
  "Detached (DockerContainer n i c d t) = d"
| "Detached (gardenContainer n d) = d"

fun Trace :: "Container \<Rightarrow> bool" where
  "Trace (DockerContainer n i c d t) = t"
| "Trace (gardenContainer n d) = False"

fun Image :: "Container \<Rightarrow> string" where
  "Image (DockerContainer n i c d t) = i"
| "Image (gardenContainer n d) = []"

text \<open>\<open>Command\<close>: \<open>None\<close> where the handle's type has no such method.\<close>

fun Command :: "Container \<Rightarrow> string option" where
  "Command (DockerContainer n i c d t) = Some c"
| "Command (gardenContainer n d) = None"

section \<open>The Docker driver\<close>

record DockerDriver =
  dockerBinary :: string
  dockerInfo :: string

definition defaultDockerBinary :: string where
  "defaultDockerBinary = ''docker''"

record versions =
  clientVer :: string
  clientAPI :: string
  serverVer :: string

text \<open>
  The body of the first loop of \<open>parseDaemonInfo\<close>, on one line of \<open>docker version\<close>.
  \<open>parts[1]\<close> is read with no check of the length of \<open>parts\<close>: on a line without a
  colon the index is out of range and the Go runtime panics (\<open>None\<close>).
\<close>

definition version_line :: "string \<Rightarrow> versions \<Rightarrow> versions option" where
  "version_line line v =
     (case Split line (CHR '':'') of
        [] \<Rightarrow> None
      | p0 # rest \<Rightarrow>
          if TrimSpace p0 = ''Version'' then
            (case rest of
               [] \<Rightarrow> None
             | p1 # _ \<Rightarrow>
                 if clientVer v = [] then Some (v\<lparr>clientVer := TrimSpace p1\<rparr>)
                 else Some (v\<lparr>serverVer := TrimSpace p1\<rparr>))
          else if TrimSpace p0 = ''API version'' then
            (case rest of
               [] \<Rightarrow> None
             | p1 # _ \<Rightarrow>
                 if clientAPI v = [] then
                   Some (v\<lparr>clientAPI := p1,
                            clientVer := clientVer v @ ''|API:'' @ TrimSpace p1\<rparr>)
                 else Some (v\<lparr>serverVer := serverVer v @ ''|API:'' @ TrimSpace p1\<rparr>))
          else Some v)"

text \<open>The body of the second loop, on one line of \<open>docker info\<close>.\<close>

definition info_line :: "string \<Rightarrow> string \<Rightarrow> string option" where
  "info_line line sv =
     (case Split line (CHR '':'') of
        [] \<Rightarrow> None
      | p0 # rest \<Rightarrow>
          if TrimSpace p0 = ''Kernel Version'' then
            (case rest of [] \<Rightarrow> None | p1 # _ \<Rightarrow> Some (sv @ ''|Kernel:'' @ TrimSpace p1))
          else if TrimSpace p0 = ''Storage Driver'' then
            (case rest of [] \<Rightarrow> None | p1 # _ \<Rightarrow> Some (sv @ ''|Storage:'' @ TrimSpace p1))
          else if TrimSpace p0 = ''Backing Filesystem'' then
            (case rest of [] \<Rightarrow> None | p1 # _ \<Rightarrow> Some (sv @ ''|BackingFS:'' @ TrimSpace p1))
          else Some sv)"

definition parseDaemonInfo :: "string \<Rightarrow> string \<Rightarrow> string option" where
  "parseDaemonInfo version info =
     (case scan_loop version_line (scan_lines version)
             \<lparr>clientVer = [], clientAPI = [], serverVer = []\<rparr> of
        None \<Rightarrow> None
      | Some v \<Rightarrow>
          (case scan_loop info_line (scan_lines info) (serverVer v) of
             None \<Rightarrow> None
           | Some sv \<Rightarrow> Some (''[CLIENT:'' @ clientVer v @ ''][SERVER:'' @ sv @ '']'')))"

text \<open>
  \<open>Info\<close>: the error of the \<open>version\<close> command is overwritten by that of the \<open>info\<close>
  command before it is looked at. The driver object is returned with the result, since
  \<open>Info\<close> writes its \<open>dockerInfo\<close> field.
\<close>

definition DockerDriver_Info ::
  "'w engine \<Rightarrow> DockerDriver \<Rightarrow> 'w sys \<Rightarrow> (string \<times> error option) outcome \<times> DockerDriver \<times> 'w sys" where
  "DockerDriver_Info eng d s =
     (if dockerInfo d \<noteq> [] then (Return (dockerInfo d, None), d, s)
      else
        let infoStart = ''docker driver (binary: '' @ dockerBinary d @ '')'' @ [CHR 0x0A];
            (version, s1) = invoke eng (ExecCmd (dockerBinary d) ''version'') s;
            (info, s2) = invoke eng (ExecCmd (dockerBinary d) ''info'') s1
        in (case failure info of
              Some e \<Rightarrow>
                (Return ([], Some (''Error trying to retrieve docker daemon info: '' @ e)), d, s2)
            | None \<Rightarrow>
                (case parseDaemonInfo (out version) (out info) of
                   None \<Rightarrow> (Panic, d, s2)
                 | Some p \<Rightarrow>
                     (Return (infoStart @ p, None), d\<lparr>dockerInfo := infoStart @ p\<rparr>, s2))))"

text \<open>
  \<open>NewDockerDriver\<close>: both results of \<open>driver.Info()\<close> are discarded; only a panic
  inside it reaches the caller.
\<close>

definition NewDockerDriver ::
  "'w engine \<Rightarrow> string \<Rightarrow> 'w sys \<Rightarrow> (DockerDriver \<times> error option) outcome \<times> 'w sys" where
  "NewDockerDriver eng binaryPath s =
     (let binaryPath' = (if binaryPath = [] then defaultDockerBinary else binaryPath);
          (resolved, s1) = invoke eng (ResolveBinary binaryPath') s
      in (case failure resolved of
            Some e \<Rightarrow> (Return (\<lparr>dockerBinary = [], dockerInfo = []\<rparr>, Some e), s1)
          | None \<Rightarrow>
              (case DockerDriver_Info eng \<lparr>dockerBinary = out resolved, dockerInfo = []\<rparr> s1 of
                 (Panic, driver, s2) \<Rightarrow> (Panic, s2)
               | (Return _, driver, s2) \<Rightarrow> (Return (driver, None), s2))))"

definition DockerDriver_Create ::
  "'w engine \<Rightarrow> DockerDriver \<Rightarrow> string \<Rightarrow> string \<Rightarrow> string \<Rightarrow> bool \<Rightarrow> bool \<Rightarrow> 'w sys
     \<Rightarrow> (Container \<times> error option) \<times> 'w sys" where
  "DockerDriver_Create eng d nm img cmd det trc s =
     ((newDockerContainer nm img cmd det trc, None), s)"

definition docker_stop_cmd :: string where
  "docker_stop_cmd = ''docker stop `docker ps -qf name=bb-ctr-`''"

definition docker_rm_cmd :: string where
  "docker_rm_cmd = ''docker rm -f `docker ps -aqf name=bb-ctr-`''"

text \<open>
  One of the two steps of \<open>Clean\<close>: run the shell command; if it failed and its output
  does not say that there was nothing to work on, log a warning.
\<close>

definition docker_clean_step :: "'w engine \<Rightarrow> string \<Rightarrow> string \<Rightarrow> 'w sys \<Rightarrow> 'w sys" where
  "docker_clean_step eng cmd what s =
     (let (r, s1) = invoke eng (ExecShellCmd cmd) s
      in (case failure r of
            None \<Rightarrow> s1
          | Some e \<Rightarrow>
              if \<not> Contains (out r) ''requires at least 1 argument''
              then log_Warn (''Docker: Failed to '' @ what @ '' bb-ctr-* containers: '' @ e
                               @ '' (output: '' @ out r @ '')'') s1
              else s1))"

definition DockerDriver_Clean :: "'w engine \<Rightarrow> DockerDriver \<Rightarrow> 'w sys \<Rightarrow> error option \<times> 'w sys" where
  "DockerDriver_Clean eng d s =
     (let s1 = log_Info ''Docker: Stopping any running containers created during bucketbench runs'' s;
          s2 = docker_clean_step eng docker_stop_cmd ''stop running'' s1;
          s3 = log_Info ''Docker: Removing exited containers from bucketbench runs'' s2;
          s4 = docker_clean_step eng docker_rm_cmd ''remove exited'' s3
      in (None, s4))"

text \<open>\<open>utils.ExecTimedCmd\<close> returns the output, the elapsed milliseconds and the error.\<close>

definition ExecTimed ::
  "'w engine \<Rightarrow> string \<Rightarrow> string \<Rightarrow> 'w sys \<Rightarrow> (string \<times> int \<times> error option) \<times> 'w sys" where
  "ExecTimed eng binary args s =
     (let (r, s1) = invoke eng (ExecTimedCmd binary args) s
      in ((out r, elapsed r, failure r), s1))"

definition DockerDriver_Run ::
  "'w engine \<Rightarrow> DockerDriver \<Rightarrow> Container \<Rightarrow> 'w sys \<Rightarrow> (string \<times> int \<times> error option) \<times> 'w sys" where
  "DockerDriver_Run eng d ctr s =
     (let det = (if Detached ctr then ''-d'' else []);
          args = ''run '' @ det @ '' --name '' @ Name ctr @ '' '' @ Image ctr
      in ExecTimed eng (dockerBinary d) args s)"

definition DockerDriver_Stop ::
  "'w engine \<Rightarrow> DockerDriver \<Rightarrow> Container \<Rightarrow> 'w sys \<Rightarrow> (string \<times> int \<times> error option) \<times> 'w sys" where
  "DockerDriver_Stop eng d ctr s = ExecTimed eng (dockerBinary d) (''kill '' @ Name ctr) s"

definition DockerDriver_Remove ::
  "'w engine \<Rightarrow> DockerDriver \<Rightarrow> Container \<Rightarrow> 'w sys \<Rightarrow> (string \<times> int \<times> error option) \<times> 'w sys" where
  "DockerDriver_Remove eng d ctr s = ExecTimed eng (dockerBinary d) (''rm '' @ Name ctr) s"

definition DockerDriver_Pause ::
  "'w engine \<Rightarrow> DockerDriver \<Rightarrow> Container \<Rightarrow> 'w sys \<Rightarrow> (string \<times> int \<times> error option) \<times> 'w sys" where
  "DockerDriver_Pause eng d ctr s = ExecTimed eng (dockerBinary d) (''pause '' @ Name ctr) s"

definition DockerDriver_Unpause ::
  "'w engine \<Rightarrow> DockerDriver \<Rightarrow> Container \<Rightarrow> 'w sys \<Rightarrow> (string \<times> int \<times> error option) \<times> 'w sys" where
  "DockerDriver_Unpause eng d ctr s = ExecTimed eng (dockerBinary d) (''unpause '' @ Name ctr) s"

section \<open>The Garden driver\<close>

record GardenDriver =
  gaolPath :: string

definition NewGardenDriver :: "string \<Rightarrow> GardenDriver \<times> error option" where
  "NewGardenDriver path = (\<lparr>gaolPath = path\<rparr>, None)"

definition GardenDriver_Info :: "GardenDriver \<Rightarrow> string \<times> error option" where
  "GardenDriver_Info g = (''Info for Garden isn't implemented yet'', None)"

definition runGaol ::
  "'w engine \<Rightarrow> GardenDriver \<Rightarrow> string list \<Rightarrow> 'w sys \<Rightarrow> (string \<times> error option) \<times> 'w sys" where
  "runGaol eng g gaolArgs s =
     (let (r, s1) = invoke eng (CombinedOutput (gaolPath g) gaolArgs) s
      in (case failure r of
            Some e \<Rightarrow>
              (([], Some (''error running '' @ gaolPath g @ '' '' @ [CHR 0x27]
                          @ Join gaolArgs '' '' @ [CHR 0x27] @ '': '' @ e @ [CHR 0x0A]
                          @ ''gaol CLI output: '' @ out r)), s1)
          | None \<Rightarrow> ((out r, None), s1)))"

text \<open>
  \<open>Create\<close> of the Garden driver has four parameters (no command override); on failure
  it returns a nil handle (\<open>None\<close>) and the error.
\<close>

definition GardenDriver_Create ::
  "'w engine \<Rightarrow> GardenDriver \<Rightarrow> string \<Rightarrow> string \<Rightarrow> bool \<Rightarrow> bool \<Rightarrow> 'w sys
     \<Rightarrow> (Container option \<times> error option) \<times> 'w sys" where
  "GardenDriver_Create eng g nm img det trc s =
     (case runGaol eng g [''create'', ''-n'', nm] s of
        ((_, Some e), s1) \<Rightarrow> ((None, Some e), s1)
      | ((_, None), s1) \<Rightarrow> ((Some (gardenContainer nm det), None), s1))"

text \<open>The loop of \<open>Clean\<close> over the lines of \<open>gaol list\<close>.\<close>

fun destroy_all :: "'w engine \<Rightarrow> GardenDriver \<Rightarrow> string list \<Rightarrow> 'w sys \<Rightarrow> error option \<times> 'w sys" where
  "destroy_all eng g [] s = (None, s)"
| "destroy_all eng g (container # rest) s =
     (if container = [] then destroy_all eng g rest s
      else (case runGaol eng g [''destroy'', container] s of
              ((_, Some e), s1) \<Rightarrow> (Some e, s1)
            | ((_, None), s1) \<Rightarrow> destroy_all eng g rest s1))"

definition GardenDriver_Clean :: "'w engine \<Rightarrow> GardenDriver \<Rightarrow> 'w sys \<Rightarrow> error option \<times> 'w sys" where
  "GardenDriver_Clean eng g s =
     (case runGaol eng g [''list''] s of
        ((_, Some e), s1) \<Rightarrow> (Some e, s1)
      | ((containers, None), s1) \<Rightarrow> destroy_all eng g (Split containers (CHR 0x0A)) s1)"

definition GardenDriver_Run ::
  "'w engine \<Rightarrow> GardenDriver \<Rightarrow> Container \<Rightarrow> 'w sys \<Rightarrow> (string \<times> int \<times> error option) \<times> 'w sys" where
  "GardenDriver_Run eng g ctr s =
     (let gaolArgs = ''run '' @ Name ctr;
          gaolArgs = (if \<not> Detached ctr then gaolArgs @ '' -a'' else gaolArgs);
          gaolArgs = gaolArgs @ '' -c whoami''
      in ExecTimed eng (gaolPath g) gaolArgs s)"

definition GardenDriver_Stop ::
  "'w engine \<Rightarrow> GardenDriver \<Rightarrow> Container \<Rightarrow> 'w sys \<Rightarrow> (string \<times> int \<times> error option) \<times> 'w sys" where
  "GardenDriver_Stop eng g ctr s = (([], 0, None), s)"

definition GardenDriver_Remove ::
  "'w engine \<Rightarrow> GardenDriver \<Rightarrow> Container \<Rightarrow> 'w sys \<Rightarrow> (string \<times> int \<times> error option) \<times> 'w sys" where
  "GardenDriver_Remove eng g ctr s = ExecTimed eng (gaolPath g) (''destroy '' @ Name ctr) s"

definition GardenDriver_Pause ::
  "'w engine \<Rightarrow> GardenDriver \<Rightarrow> Container \<Rightarrow> 'w sys \<Rightarrow> (string \<times> int \<times> error option) \<times> 'w sys" where
  "GardenDriver_Pause eng g ctr s = (([], 0, None), s)"

definition GardenDriver_Unpause ::
  "'w engine \<Rightarrow> GardenDriver \<Rightarrow> Container \<Rightarrow> 'w sys \<Rightarrow> (string \<times> int \<times> error option) \<times> 'w sys" where
  "GardenDriver_Unpause eng g ctr s = (([], 0, None), s)"

section \<open>Benchmarks\<close>

text \<open>
  \<open>State\<close> and \<open>Type\<close> are Go integer types whose constants are numbered by \<open>iota\<close>.
  Of the structs \<open>LimitBench\<close> and \<open>CustomBench\<close>, \<open>New\<close> sets the field \<open>state\<close> and leaves
  every other field at its zero value.
\<close>

type_synonym State = int

type_synonym Type = int

definition Created :: State where "Created = 0"

definition Running :: State where "Running = 1"

definition Completed :: State where "Completed = 2"

definition Limit :: Type where "Limit = 0"

definition Custom :: Type where "Custom = 1"

datatype Bench = LimitBench (state: State) | CustomBench (state: State)

definition New :: "Type \<Rightarrow> Bench option \<times> error option" where
  "New btype =
     (if btype = Limit then (Some (LimitBench Created), None)
      else if btype = Custom then (Some (CustomBench Created), None)
      else (None, Some (''No such benchmark type: '' @ format_int btype)))"

section \<open>Observations on a run\<close>

text \<open>The engine calls, with their replies, that \<open>s'\<close> has and its ancestor \<open>s\<close> has not.\<close>

definition new_calls :: "'w sys \<Rightarrow> 'w sys \<Rightarrow> (call \<times> reply) list" where
  "new_calls s s' = drop (length (issued s)) (issued s')"

text \<open>A call the engine answered with an error.\<close>

definition failed :: "call \<times> reply \<Rightarrow> bool" where
  "failed cr = (failure (snd cr) \<noteq> None)"

text \<open>
  A failed call whose output does not carry the engine's message for an empty argument
  list, the test the Docker driver makes before it logs.
\<close>

definition genuine :: "call \<times> reply \<Rightarrow> bool" where
  "genuine cr =
     (failure (snd cr) \<noteq> None \<and> \<not> Contains (out (snd cr)) ''requires at least 1 argument'')"

definition warnings :: "'w sys \<Rightarrow> (level \<times> string) list" where
  "warnings s = filter (\<lambda>e. fst e = WarnLevel) (logged s)"

text \<open>
  The \<open>destroy\<close> calls for a listing: one for each non-empty line of the output of
  \<open>gaol list\<close>, in order.
\<close>

definition destroy_calls :: "GardenDriver \<Rightarrow> string \<Rightarrow> call list" where
  "destroy_calls g listing =
     map (\<lambda>c. CombinedOutput (gaolPath g) [''destroy'', c])
       (filter (\<lambda>c. c \<noteq> []) (Split listing (CHR 0x0A)))"

text \<open>
  \<open>X\<close> is the history of calls that the loop of Garden's \<open>Clean\<close> adds: the loop
  returns an error exactly if a call of \<open>X\<close> failed, and \<open>X\<close> asks for the containers
  of \<open>cs\<close> in order, all of them if no error is returned.
\<close>

definition destroy_history ::
  "'w engine \<Rightarrow> GardenDriver \<Rightarrow> string list \<Rightarrow> 'w sys \<Rightarrow> (call \<times> reply) list \<Rightarrow> bool" where
  "destroy_history eng g cs s X =
     (issued (snd (destroy_all eng g cs s)) = issued s @ X
      \<and> (fst (destroy_all eng g cs s) \<noteq> None) = list_ex failed X
      \<and> prefix (map fst X)
          (map (\<lambda>c. CombinedOutput (gaolPath g) [''destroy'', c]) (filter (\<lambda>c. c \<noteq> []) cs))
      \<and> (fst (destroy_all eng g cs s) = None \<longrightarrow>
          map fst X =
            map (\<lambda>c. CombinedOutput (gaolPath g) [''destroy'', c]) (filter (\<lambda>c. c \<noteq> []) cs)))"

text \<open>The same for the whole of Garden's \<open>Clean\<close>, whose first call is \<open>gaol list\<close>.\<close>

definition clean_history ::
  "'w engine \<Rightarrow> GardenDriver \<Rightarrow> 'w sys \<Rightarrow> (call \<times> reply) list \<Rightarrow> bool" where
  "clean_history eng g s X =
     (issued (snd (GardenDriver_Clean eng g s)) = issued s @ X
      \<and> (fst (GardenDriver_Clean eng g s) \<noteq> None) = list_ex failed X
      \<and> prefix (map fst X)
          (CombinedOutput (gaolPath g) [''list''] #
           destroy_calls g (out (fst (eng (CombinedOutput (gaolPath g) [''list'']) (world s)))))
      \<and> (fst (GardenDriver_Clean eng g s) = None \<longrightarrow>
          map fst X =
            CombinedOutput (gaolPath g) [''list''] #
            destroy_calls g (out (fst (eng (CombinedOutput (gaolPath g) [''list'']) (world s))))))"

section \<open>Engines and drivers for concrete runs\<close>

text \<open>Every call succeeds with empty output.\<close>

definition quiet_engine :: "unit engine" where
  "quiet_engine c w = (\<lparr>out = [], elapsed = 0, failure = None\<rparr>, w)"

text \<open>No binary can be found or started: every call fails.\<close>

definition no_engine :: "unit engine" where
  "no_engine c w =
     (\<lparr>out = [], elapsed = 0, failure = Some ''executable file not found in $PATH''\<rparr>, w)"

text \<open>The client binary is installed, the daemon does not answer.\<close>

definition daemon_down :: "unit engine" where
  "daemon_down c w =
     (case c of
        ResolveBinary p \<Rightarrow> (\<lparr>out = ''/usr/bin/'' @ p, elapsed = 0, failure = None\<rparr>, w)
      | _ \<Rightarrow> (\<lparr>out = ''Cannot connect to the Docker daemon'', elapsed = 0,
                failure = Some ''exit status 1''\<rparr>, w))"

text \<open>
  Every command succeeds; the output of \<open>version\<close> is the one line \<open>Version\<close>, without
  a colon.
\<close>

definition odd_version :: "unit engine" where
  "odd_version c w =
     (case c of
        ExecCmd b args \<Rightarrow>
          (\<lparr>out = (if args = ''version'' then ''Version'' else []), elapsed = 0,
            failure = None\<rparr>, w)
      | _ \<Rightarrow> (\<lparr>out = [], elapsed = 0, failure = None\<rparr>, w))"

text \<open>
  No container of a benchmark run is left: the inner \<open>docker ps\<close> prints nothing and
  the shell commands of \<open>Clean\<close> fail with Docker's message for a missing argument.
\<close>

definition nothing_to_clean :: "unit engine" where
  "nothing_to_clean c w =
     (case c of
        ExecShellCmd cmd \<Rightarrow>
          (\<lparr>out = [CHR 0x22] @ ''docker stop'' @ [CHR 0x22] @ '' requires at least 1 argument.'',
            elapsed = 0, failure = Some ''exit status 1''\<rparr>, w)
      | _ \<Rightarrow> (\<lparr>out = [], elapsed = 0, failure = None\<rparr>, w))"

text \<open>
  A Garden server reduced to the handles of its containers: \<open>list\<close> prints one handle
  per line, \<open>destroy\<close> removes a handle that exists, \<open>create -n\<close> adds one that does not.
\<close>

definition gaol_sim :: "string list engine" where
  "gaol_sim c w =
     (case c of
        CombinedOutput path args \<Rightarrow>
          if args = [''list''] then
            (\<lparr>out = concat (map (\<lambda>h. h @ [CHR 0x0A]) w), elapsed = 0, failure = None\<rparr>, w)
          else if length args = 2 \<and> args ! 0 = ''destroy'' \<and> args ! 1 \<in> set w then
            (\<lparr>out = [], elapsed = 0, failure = None\<rparr>, removeAll (args ! 1) w)
          else if length args = 3 \<and> take 2 args = [''create'', ''-n''] \<and> args ! 2 \<notin> set w then
            (\<lparr>out = [], elapsed = 0, failure = None\<rparr>, w @ [args ! 2])
          else (\<lparr>out = [], elapsed = 0, failure = Some ''exit status 1''\<rparr>, w)
      | _ \<Rightarrow> (\<lparr>out = [], elapsed = 0, failure = Some ''exit status 1''\<rparr>, w))"

text \<open>
  A server that answers its first call and refuses every later one; the world is the
  number of calls received.
\<close>

definition daemon_stops :: "nat engine" where
  "daemon_stops c n =
     (if n = 0 then (\<lparr>out = [], elapsed = 0, failure = None\<rparr>, Suc n)
      else (\<lparr>out = [], elapsed = 0, failure = Some ''connection refused''\<rparr>, Suc n))"

definition sys0 :: "unit sys" where
  "sys0 = \<lparr>world = (), issued = [], logged = []\<rparr>"

definition gaol_sys :: "string list \<Rightarrow> string list sys" where
  "gaol_sys hs = \<lparr>world = hs, issued = [], logged = []\<rparr>"

definition docker0 :: DockerDriver where
  "docker0 = \<lparr>dockerBinary = ''/usr/bin/docker'', dockerInfo = []\<rparr>"

definition garden0 :: GardenDriver where
  "garden0 = \<lparr>gaolPath = ''gaol''\<rparr>"

section \<open>Operations the engine cannot support\<close>

text \<open>
  C3. For every container handle, Garden's Stop, Pause and Unpause are no-ops: each
  returns empty output, zero elapsed time and no error, whatever the engine is, and
  leaves the outside world, the history of engine calls and the log as they were.
\<close>

theorem garden_unsupported_noop:
  "GardenDriver_Stop eng g ctr s = (([], 0, None), s)
   \<and> GardenDriver_Pause eng g ctr s = (([], 0, None), s)
   \<and> GardenDriver_Unpause eng g ctr s = (([], 0, None), s)"
  by (simp add: GardenDriver_Stop_def GardenDriver_Pause_def GardenDriver_Unpause_def)

end
